theory Spec2Isabelle
  imports Main
begin

section \<open>Python values and exceptions\<close>

text \<open>
  The scalar values that travel through the forms of MediaCore: \<open>None\<close>, booleans,
  integers and strings. Form fields, engine settings and the attributes of a podcast
  hold such values.
\<close>

datatype pyval = PNone | PBool bool | PInt int | PStr string

text \<open>Python's truth value of an object: \<open>None\<close>, \<open>False\<close>, \<open>0\<close> and \<open>''\<close> are falsy.\<close>

fun truthy :: "pyval \<Rightarrow> bool" where
  "truthy PNone = False"
| "truthy (PBool b) = b"
| "truthy (PInt i) = (i \<noteq> 0)"
| "truthy (PStr s) = (s \<noteq> [])"

text \<open>\<open>a or b\<close> on values (both operands are already evaluated here).\<close>

definition py_or :: "pyval \<Rightarrow> pyval \<Rightarrow> pyval" where
  "py_or a b = (if truthy a then a else b)"

text \<open>
  Equality of dictionary keys: \<open>True == 1\<close> and \<open>False == 0\<close> in Python (and they hash
  alike), every other pair of values of different types is unequal.
\<close>

fun py_eq :: "pyval \<Rightarrow> pyval \<Rightarrow> bool" where
  "py_eq PNone PNone = True"
| "py_eq (PBool a) (PBool b) = (a = b)"
| "py_eq (PBool a) (PInt i) = (i = (if a then 1 else 0))"
| "py_eq (PInt i) (PBool a) = (i = (if a then 1 else 0))"
| "py_eq (PInt i) (PInt j) = (i = j)"
| "py_eq (PStr s) (PStr t) = (s = t)"
| "py_eq _ _ = False"

text \<open>
  \<open>d.get(k, default)\<close> on a dictionary literal whose keys are values, written as the
  list of its items.
\<close>

fun lit_get :: "(pyval \<times> 'v) list \<Rightarrow> pyval \<Rightarrow> 'v \<Rightarrow> 'v" where
  "lit_get [] k d = d"
| "lit_get ((k', v) # kvs) k d = (if py_eq k' k then v else lit_get kvs k d)"

text \<open>
  Dictionaries with string keys are maps. \<open>d.get(k, default)\<close> and
  \<open>d.setdefault(k, default)\<close>, the latter returning the value found or stored together
  with the dictionary as it is afterwards.
\<close>

definition dict_get :: "(string \<rightharpoonup> 'v) \<Rightarrow> string \<Rightarrow> 'v \<Rightarrow> 'v" where
  "dict_get d k dflt = (case d k of None \<Rightarrow> dflt | Some v \<Rightarrow> v)"

definition setdefault :: "(string \<rightharpoonup> 'v) \<Rightarrow> string \<Rightarrow> 'v \<Rightarrow> 'v \<times> (string \<rightharpoonup> 'v)" where
  "setdefault d k dflt = (case d k of None \<Rightarrow> (dflt, d(k \<mapsto> dflt)) | Some v \<Rightarrow> (v, d))"

text \<open>
  Exceptions: the class of the instance and its \<open>message\<close> attribute. \<open>HTTPNotFound\<close> is
  what a missing row raises, \<open>InvalidRequestError\<close> and \<open>DatabaseError\<close> come from the
  ORM session, \<open>OtherError\<close> stands for any further subclass of \<open>Exception\<close>.
\<close>

datatype exc_class =
    IOError | KeyError | TypeError | AttributeError
  | HTTPNotFound | InvalidRequestError | DatabaseError | OtherError string

datatype exc = Exc (exc_class: exc_class) (message: string)


section \<open>The FTP storage form (\<open>mediacore/forms/admin/storage/ftp.py\<close>)\<close>

text \<open>A storage engine, as far as the form touches it: its \<open>_data\<close> dictionary.\<close>

record engine =
  data :: "string \<rightharpoonup> pyval"

text \<open>
  An entry of the form's \<open>value\<close> dictionary is either a scalar or a nested dictionary of
  scalars (the submission of a field set, such as \<open>value['specifics']\<close>).
\<close>

datatype formval = Val pyval | Dict "string \<rightharpoonup> pyval"

text \<open>
  \<open>FTPStorageForm.display(self, value, **kwargs)\<close>. The keyword arguments are the
  map \<open>kwargs\<close>; \<open>kwargs['engine']\<close> raises \<open>KeyError\<close> when the keyword is missing.
  \<open>specifics\<close> is the very dictionary stored under \<open>value['specifics']\<close>, so the two
  \<open>setdefault\<close> calls on it change \<open>value\<close>; a \<open>value['specifics']\<close> that is no dictionary
  has no \<open>setdefault\<close> attribute. The method ends in \<open>StorageForm.display\<close>, the parent
  class's method, which is not part of the sources at hand and is the parameter
  \<open>StorageForm_display\<close>: it receives \<open>value\<close> as left by the three \<open>setdefault\<close> calls.
  The result is what the parent returns, together with \<open>value\<close> as the caller finds it.
\<close>

definition display ::
  "((string \<rightharpoonup> formval) \<Rightarrow> (string \<rightharpoonup> engine) \<Rightarrow> 'r) \<Rightarrow>
   (string \<rightharpoonup> formval) \<Rightarrow> (string \<rightharpoonup> engine) \<Rightarrow> exc + ('r \<times> (string \<rightharpoonup> formval))" where
  "display StorageForm_display value kwargs =
     (case kwargs ''engine'' of
        None \<Rightarrow> Inl (Exc KeyError ''engine'')
      | Some engine \<Rightarrow>
          (case setdefault value ''specifics'' (Dict Map.empty) of
             (Val _, _) \<Rightarrow> Inl (Exc AttributeError ''setdefault'')
           | (Dict specifics, value1) \<Rightarrow>
               let specifics1 = snd (setdefault specifics ''path''
                                       (dict_get (data engine) ''path'' PNone));
                   specifics2 = snd (setdefault specifics1 ''rtmp_server_uri''
                                       (dict_get (data engine) ''rtmp_server_uri'' PNone));
                   value2 = value1(''specifics'' \<mapsto> Dict specifics2)
               in Inr (StorageForm_display value2 kwargs, value2)))"

text \<open>
  \<open>FTPStorageForm.save_engine_params(self, engine, specifics=None, **kwargs)\<close>.
  \<open>specifics\<close> defaults to \<open>None\<close>, which cannot be subscripted; a dictionary without the
  key raises \<open>KeyError\<close>. The first assignment is done before the second subscript is
  evaluated, so the engine is returned as the call leaves it, with the exception raised,
  if any.
\<close>

definition save_engine_params ::
  "engine \<Rightarrow> (string \<rightharpoonup> pyval) option \<Rightarrow> exc option \<times> engine" where
  "save_engine_params engine specifics =
     (case specifics of
        None \<Rightarrow> (Some (Exc TypeError ''NoneType object is unsubscriptable''), engine)
      | Some sp \<Rightarrow>
          (case sp ''path'' of
             None \<Rightarrow> (Some (Exc KeyError ''path''), engine)
           | Some p \<Rightarrow>
               let engine1 = engine\<lparr>data := (data engine)(''path'' \<mapsto> py_or p PNone)\<rparr>
               in (case sp ''rtmp_server_uri'' of
                     None \<Rightarrow> (Some (Exc KeyError ''rtmp_server_uri''), engine1)
                   | Some u \<Rightarrow>
                       (None, engine1\<lparr>data := (data engine1)
                                (''rtmp_server_uri'' \<mapsto> py_or u PNone)\<rparr>))))"


section \<open>The explicit-content flag of a podcast\<close>

text \<open>
  \<open>edit\<close> shows the stored flag with
  \<open>{True: 'yes', False: 'clean'}.get(podcast.explicit, 'no')\<close>, and \<open>save\<close> reads the
  submitted choice with \<open>{'yes': True, 'clean': False}.get(details['explicit'], None)\<close>.
\<close>

definition edit_explicit :: "pyval \<Rightarrow> pyval" where
  "edit_explicit flag =
     lit_get [(PBool True, PStr ''yes''), (PBool False, PStr ''clean'')] flag (PStr ''no'')"

definition save_explicit :: "pyval \<Rightarrow> pyval" where
  "save_explicit choice =
     lit_get [(PStr ''yes'', PBool True), (PStr ''clean'', PBool False)] choice PNone"


section \<open>The ORM session behind the podcast controller\<close>

text \<open>\<open>Author(name, email)\<close> and the attributes of a \<open>Podcast\<close> that the controller touches.\<close>

record author =
  name :: pyval
  email :: pyval

record podcast =
  podcast_id :: "int option"
  slug :: pyval
  title :: pyval
  subtitle :: pyval
  author :: "author option"
  description :: pyval
  copyright :: pyval
  category :: pyval
  itunes_url :: pyval
  feedburner_url :: pyval
  explicit :: pyval

text \<open>\<open>Podcast()\<close>: a new instance, no attribute set, no primary key yet.\<close>

definition Podcast :: podcast where
  "Podcast = \<lparr>podcast_id = None, slug = PNone, title = PNone, subtitle = PNone,
              author = None, description = PNone, copyright = PNone, category = PNone,
              itunes_url = PNone, feedburner_url = PNone, explicit = PNone\<rparr>"

text \<open>An uploaded file (\<open>cgi.FieldStorage\<close>): its \<open>filename\<close> and the bytes of its \<open>file\<close>.\<close>

record upload =
  filename :: string
  file_data :: string

text \<open>What a file on disk holds: an image saved by the imaging library, or raw bytes.\<close>

datatype 'img file_content = Thumb 'img | Raw string

text \<open>
  The state a request runs in. \<open>Podcast\<close> instances are objects: the session and the
  controller's variable \<open>podcast\<close> refer to the same instance, so instances live in a
  store (\<open>heap\<close>) and are named by references. The session (\<open>DBSession\<close>) tracks the
  instances added and not yet inserted (\<open>session_new\<close>), the instances loaded from or
  written to the table (\<open>session_persistent\<close>) and those marked for deletion
  (\<open>session_deleted\<close>). \<open>rows\<close> is the podcasts table by primary key, \<open>next_id\<close> its
  autoincrement counter, \<open>flushes\<close> counts the calls of \<open>DBSession.flush\<close>.
  \<open>files\<close> is the file system under the thumbnail directory and \<open>content_type\<close> the
  header \<open>response.headers['Content-Type']\<close>.
\<close>

type_synonym ref = nat

record 'img world =
  heap :: "ref \<Rightarrow> podcast"
  next_ref :: ref
  session_new :: "ref list"
  session_persistent :: "ref list"
  session_deleted :: "ref list"
  rows :: "int \<rightharpoonup> podcast"
  next_id :: int
  flushes :: nat
  files :: "string \<rightharpoonup> 'img file_content"
  content_type :: "string option"

text \<open>
  The collaborators of the controller that are not part of the sources at hand, as
  parameters: the attributes \<open>create_podcast_stub\<close> gives a stub (\<open>stub\<close>), the slug helper
  (it reads the table, the wanted slug and the instance), the XHTML cleaner,
  \<open>Image.open\<close> on the uploaded bytes, \<open>config.thumb_sizes\<close> with the key
  \<open>Podcast._thumb_dir\<close>, \<open>helpers.thumb_path(podcast, key, ext)\<close>,
  \<open>helpers.resize_thumb(img, xy)\<close>, whether writing a path fails (\<open>write_error\<close>), whether
  the database rejects the flush of this request (\<open>flush_error\<close>),
  \<open>helpers.best_json_content_type()\<close> and \<open>os.path.splitext\<close>.
\<close>

record 'img env =
  stub :: podcast
  get_available_slug :: "(int \<rightharpoonup> podcast) \<Rightarrow> pyval \<Rightarrow> podcast \<Rightarrow> pyval"
  clean_admin_xhtml :: "pyval \<Rightarrow> pyval"
  Image_open :: "string \<Rightarrow> exc + 'img"
  config_thumb_sizes :: "string \<rightharpoonup> (string \<times> nat \<times> nat) list"
  thumb_dir :: string
  thumb_path :: "podcast \<Rightarrow> string \<Rightarrow> string option \<Rightarrow> string"
  resize_thumb :: "'img \<Rightarrow> nat \<times> nat \<Rightarrow> exc + 'img"
  write_error :: "string \<Rightarrow> exc option"
  flush_error :: "exc option"
  best_json_content_type :: string
  splitext :: "string \<Rightarrow> string \<times> string"

text \<open>
  A statement runs in a world and leaves a world, with the exception it raised, if any.
  \<open>block\<close> runs statements in sequence and stops at the first that raises.
\<close>

type_synonym 'img stmt = "'img world \<Rightarrow> exc option \<times> 'img world"

fun block :: "'img stmt list \<Rightarrow> 'img stmt" where
  "block [] w = (None, w)"
| "block (s # ss) w = (case s w of (Some e, w1) \<Rightarrow> (Some e, w1) | (None, w1) \<Rightarrow> block ss w1)"

text \<open>A new instance in the store, and an attribute assignment on an instance.\<close>

definition new_object :: "podcast \<Rightarrow> 'img world \<Rightarrow> ref \<times> 'img world" where
  "new_object p w = (next_ref w, w\<lparr>heap := (heap w)(next_ref w := p), next_ref := Suc (next_ref w)\<rparr>)"

definition assign :: "ref \<Rightarrow> (podcast \<Rightarrow> podcast) \<Rightarrow> 'img stmt" where
  "assign r f w = (None, w\<lparr>heap := (heap w)(r := f (heap w r))\<rparr>)"

text \<open>
  \<open>DBSession.add\<close>: an instance the session does not track yet becomes pending.
  \<open>DBSession.delete\<close>: a persistent instance is marked for deletion; the session refuses an
  instance that is not persistent.
\<close>

definition DBSession_add :: "ref \<Rightarrow> 'img stmt" where
  "DBSession_add r w =
     (None, if r \<in> set (session_new w) \<or> r \<in> set (session_persistent w) then w
            else w\<lparr>session_new := session_new w @ [r]\<rparr>)"

definition DBSession_delete :: "ref \<Rightarrow> 'img stmt" where
  "DBSession_delete r w =
     (if r \<in> set (session_persistent w)
      then (None, w\<lparr>session_deleted := session_deleted w @ [r]\<rparr>)
      else (Some (Exc InvalidRequestError ''Instance is not persisted''), w))"

text \<open>
  \<open>DBSession.flush\<close>: pending instances are inserted, each without a primary key getting
  the next one; persistent instances not marked for deletion are written back; the rows
  of the instances marked for deletion are removed. When the database rejects the flush
  nothing is written.
\<close>

fun flush_new :: "ref list \<Rightarrow> 'img world \<Rightarrow> 'img world" where
  "flush_new [] w = w"
| "flush_new (r # rs) w =
     (case podcast_id (heap w r) of
        Some i \<Rightarrow> flush_new rs (w\<lparr>rows := (rows w)(i \<mapsto> heap w r)\<rparr>)
      | None \<Rightarrow>
          (let p = (heap w r)\<lparr>podcast_id := Some (next_id w)\<rparr>
           in flush_new rs (w\<lparr>heap := (heap w)(r := p),
                               rows := (rows w)(next_id w \<mapsto> p),
                               next_id := next_id w + 1\<rparr>)))"

fun flush_dirty :: "ref list \<Rightarrow> 'img world \<Rightarrow> 'img world" where
  "flush_dirty [] w = w"
| "flush_dirty (r # rs) w =
     (case podcast_id (heap w r) of
        Some i \<Rightarrow> flush_dirty rs
                    (if r \<in> set (session_deleted w) then w
                     else w\<lparr>rows := (rows w)(i \<mapsto> heap w r)\<rparr>)
      | None \<Rightarrow> flush_dirty rs w)"

fun flush_deleted :: "ref list \<Rightarrow> 'img world \<Rightarrow> 'img world" where
  "flush_deleted [] w = w"
| "flush_deleted (r # rs) w =
     (case podcast_id (heap w r) of
        Some i \<Rightarrow> flush_deleted rs (w\<lparr>rows := (rows w)(i := None)\<rparr>)
      | None \<Rightarrow> flush_deleted rs w)"

definition DBSession_flush :: "'img env \<Rightarrow> 'img stmt" where
  "DBSession_flush env w =
     (let w0 = w\<lparr>flushes := Suc (flushes w)\<rparr>
      in case flush_error env of
           Some e \<Rightarrow> (Some e, w0)
         | None \<Rightarrow>
             (let w1 = flush_new (session_new w0) w0;
                  w2 = flush_dirty (session_persistent w1) w1;
                  w3 = flush_deleted (session_deleted w2) w2
              in (None, w3\<lparr>session_new := [],
                           session_persistent :=
                             filter (\<lambda>r. r \<notin> set (session_deleted w3))
                               (session_persistent w3 @ session_new w3),
                           session_deleted := []\<rparr>)))"

text \<open>
  Modelled from the spec: \<open>fetch_row\<close> of \<open>mediacore.model\<close> is missing from the sources.
  The controller "fetches a row" for an id that is an \<open>int\<close> or \<open>"new"\<close>: for \<open>"new"\<close> a
  new, unsaved instance; for the key of a row the persistent instance of that row;
  otherwise the request ends with \<open>HTTPNotFound\<close>.
\<close>

definition fetch_row :: "'img world \<Rightarrow> pyval \<Rightarrow> exc + (ref \<times> 'img world)" where
  "fetch_row w pid =
     (if pid = PStr ''new'' then Inr (new_object Podcast w)
      else case pid of
             PInt i \<Rightarrow>
               (case rows w i of
                  None \<Rightarrow> Inl (Exc HTTPNotFound [])
                | Some p \<Rightarrow>
                    (let (r, w1) = new_object (p\<lparr>podcast_id := Some i\<rparr>) w
                     in Inr (r, w1\<lparr>session_persistent := session_persistent w1 @ [r]\<rparr>)))
           | _ \<Rightarrow> Inl (Exc HTTPNotFound []))"

text \<open>
  Modelled from the spec: \<open>create_podcast_stub\<close> of \<open>mediacore.model.podcasts\<close> is missing
  from the sources. "If \<open>"new"\<close> a new stub is created": an instance with the attributes
  \<open>stub env\<close>, which the session does not know of until the controller adds it.
\<close>

definition create_podcast_stub :: "'img env \<Rightarrow> 'img world \<Rightarrow> ref \<times> 'img world" where
  "create_podcast_stub env w = new_object (stub env) w"

text \<open>A request starts with a session that tracks nothing.\<close>

definition fresh_session :: "'img world \<Rightarrow> bool" where
  "fresh_session w \<longleftrightarrow>
     session_new w = [] \<and> session_persistent w = [] \<and> session_deleted w = []"


section \<open>The podcast admin controller (\<open>mediacore/controllers/podcastadmin.py\<close>)\<close>

text \<open>
  What an action ends in: the body it returns (the dictionary handed to \<open>json.dumps\<close>),
  a redirect to an action with an id (\<open>redirect\<close> raises the framework's redirection and
  does not return), or an exception that leaves the action.
\<close>

datatype json = JNull | JBool bool | JInt int | JStr string

datatype response =
    Body "string \<rightharpoonup> json"
  | Redirect string "int option"
  | Raise exc

text \<open>
  \<open>edit\<close>: the \<open>form_values\<close> entry of the template context it returns, the defaults read
  from the podcast and then \<open>form_values.update(values)\<close>.
  \<open>podcast.author and podcast.author.name or None\<close> is \<open>None\<close> without an author and for
  a falsy name.
\<close>

definition edit :: "'img world \<Rightarrow> pyval \<Rightarrow> (string \<rightharpoonup> formval) \<Rightarrow> exc + (string \<rightharpoonup> formval)" where
  "edit w pid values =
     (case fetch_row w pid of
        Inl e \<Rightarrow> Inl e
      | Inr (podcast, w0) \<Rightarrow>
          (let p = heap w0 podcast;
               form_values =
                 [''slug'' \<mapsto> Val (slug p),
                  ''title'' \<mapsto> Val (title p),
                  ''subtitle'' \<mapsto> Val (subtitle p),
                  ''author_name'' \<mapsto>
                     Val (case author p of None \<Rightarrow> PNone | Some a \<Rightarrow> py_or (name a) PNone),
                  ''author_email'' \<mapsto>
                     Val (case author p of None \<Rightarrow> PNone | Some a \<Rightarrow> py_or (email a) PNone),
                  ''description'' \<mapsto> Val (description p),
                  ''details'' \<mapsto> Dict
                     [''explicit'' \<mapsto> edit_explicit (explicit p),
                      ''category'' \<mapsto> category p,
                      ''copyright'' \<mapsto> copyright p,
                      ''itunes_url'' \<mapsto> itunes_url p,
                      ''feedburner_url'' \<mapsto> feedburner_url p]]
           in Inr (form_values ++ values)))"

text \<open>The arguments of \<open>save\<close>, the validated submission of the podcast form.\<close>

record podcast_form =
  form_id :: pyval
  form_slug :: pyval
  form_title :: pyval
  form_subtitle :: pyval
  form_author_name :: pyval
  form_author_email :: pyval
  form_description :: pyval
  form_details :: "string \<rightharpoonup> pyval"
  form_delete :: pyval

text \<open>\<open>podcast.attr = d[k]\<close> (through \<open>f\<close>): a missing key raises before the assignment.\<close>

definition assign_item ::
  "(string \<rightharpoonup> pyval) \<Rightarrow> string \<Rightarrow> ref \<Rightarrow> (pyval \<Rightarrow> podcast \<Rightarrow> podcast) \<Rightarrow> 'img stmt" where
  "assign_item d k r f w =
     (case d k of None \<Rightarrow> (Some (Exc KeyError k), w) | Some v \<Rightarrow> assign r (f v) w)"

text \<open>The ten assignments of \<open>save\<close>, in the order of the source.\<close>

definition save_attributes :: "'img env \<Rightarrow> podcast_form \<Rightarrow> ref \<Rightarrow> 'img stmt" where
  "save_attributes env f podcast =
     block
       [\<lambda>w. assign podcast
               (\<lambda>p. p\<lparr>slug := get_available_slug env (rows w) (form_slug f) p\<rparr>) w,
        assign podcast (\<lambda>p. p\<lparr>title := form_title f\<rparr>),
        assign podcast (\<lambda>p. p\<lparr>subtitle := form_subtitle f\<rparr>),
        assign podcast
          (\<lambda>p. p\<lparr>author := Some \<lparr>name = form_author_name f, email = form_author_email f\<rparr>\<rparr>),
        assign podcast (\<lambda>p. p\<lparr>description := clean_admin_xhtml env (form_description f)\<rparr>),
        assign_item (form_details f) ''copyright'' podcast (\<lambda>v p. p\<lparr>copyright := v\<rparr>),
        assign_item (form_details f) ''category'' podcast (\<lambda>v p. p\<lparr>category := v\<rparr>),
        assign_item (form_details f) ''itunes_url'' podcast (\<lambda>v p. p\<lparr>itunes_url := v\<rparr>),
        assign_item (form_details f) ''feedburner_url'' podcast
          (\<lambda>v p. p\<lparr>feedburner_url := v\<rparr>),
        assign_item (form_details f) ''explicit'' podcast
          (\<lambda>v p. p\<lparr>explicit := save_explicit v\<rparr>)]"

text \<open>
  \<open>save\<close>. An exception of \<open>fetch_row\<close>, of an assignment or of the session leaves the
  action; the delete branch ends in the redirect to \<open>index\<close> and so never reaches the
  assignments.
\<close>

definition save :: "'img env \<Rightarrow> podcast_form \<Rightarrow> 'img world \<Rightarrow> response \<times> 'img world" where
  "save env f w =
     (case fetch_row w (form_id f) of
        Inl e \<Rightarrow> (Raise e, w)
      | Inr (podcast, w0) \<Rightarrow>
          if truthy (form_delete f)
          then (case block [DBSession_delete podcast, DBSession_flush env] w0 of
                  (Some e, w1) \<Rightarrow> (Raise e, w1)
                | (None, w1) \<Rightarrow> (Redirect ''index'' None, w1))
          else (case block [save_attributes env f podcast,
                            DBSession_add podcast,
                            DBSession_flush env] w0 of
                  (Some e, w1) \<Rightarrow> (Raise e, w1)
                | (None, w1) \<Rightarrow> (Redirect ''edit'' (podcast_id (heap w1 podcast)), w1)))"

text \<open>\<open>str.lower\<close> on the ASCII letters.\<close>

definition lower :: "char \<Rightarrow> char" where
  "lower c = (let n = (of_char c :: nat) in if 65 \<le> n \<and> n \<le> 90 then char_of (n + 32) else c)"

text \<open>
  The loop of \<open>save_thumb\<close> over the items of \<open>config.thumb_sizes[podcast._thumb_dir]\<close>:
  resize the image and save it under the thumbnail path of the key.
\<close>

fun save_thumbs :: "'img env \<Rightarrow> ref \<Rightarrow> 'img \<Rightarrow> (string \<times> nat \<times> nat) list \<Rightarrow> 'img stmt" where
  "save_thumbs env podcast img [] w = (None, w)"
| "save_thumbs env podcast img ((key, xy) # sizes) w =
     (let path = thumb_path env (heap w podcast) key None
      in case resize_thumb env img xy of
           Inl e \<Rightarrow> (Some e, w)
         | Inr thumb_img \<Rightarrow>
             (case write_error env path of
                Some e \<Rightarrow> (Some e, w)
              | None \<Rightarrow>
                  save_thumbs env podcast img sizes
                    (w\<lparr>files := (files w)(path \<mapsto> Thumb thumb_img)\<rparr>)))"

definition create_thumbs :: "'img env \<Rightarrow> ref \<Rightarrow> 'img \<Rightarrow> 'img stmt" where
  "create_thumbs env podcast img w =
     (case config_thumb_sizes env (thumb_dir env) of
        None \<Rightarrow> (Some (Exc KeyError (thumb_dir env)), w)
      | Some sizes \<Rightarrow> save_thumbs env podcast img sizes w)"

text \<open>The backup of the original upload under the extension of its file name.\<close>

definition backup_original :: "'img env \<Rightarrow> ref \<Rightarrow> upload \<Rightarrow> 'img stmt" where
  "backup_original env podcast thumb w =
     (let backup_type = drop 1 (map lower (snd (splitext env (filename thumb))));
          backup_path = thumb_path env (heap w podcast) ''orig'' (Some backup_type)
      in case write_error env backup_path of
           Some e \<Rightarrow> (Some e, w)
         | None \<Rightarrow> (None, w\<lparr>files := (files w)(backup_path \<mapsto> Raw (file_data thumb))\<rparr>))"

text \<open>
  The body of the \<open>try\<close> statement of \<open>save_thumb\<close>. \<open>thumb\<close> is the upload or \<open>None\<close>, and
  \<open>None\<close> has no attribute \<open>file\<close>.
\<close>

definition thumb_processing ::
  "'img env \<Rightarrow> pyval \<Rightarrow> upload option \<Rightarrow> ref \<Rightarrow> 'img stmt" where
  "thumb_processing env pid thumb podcast w =
     (case thumb of
        None \<Rightarrow> (Some (Exc AttributeError ''file''), w)
      | Some t \<Rightarrow>
          (case Image_open env (file_data t) of
             Inl e \<Rightarrow> (Some e, w)
           | Inr img \<Rightarrow>
               block
                 [if pid = PStr ''new''
                  then block [DBSession_add podcast, DBSession_flush env]
                  else block [],
                  create_thumbs env podcast img,
                  backup_original env podcast t] w))"

text \<open>The podcast \<open>save_thumb\<close> works on: a stub for \<open>"new"\<close>, the fetched row otherwise.\<close>

definition thumb_podcast :: "'img env \<Rightarrow> pyval \<Rightarrow> 'img world \<Rightarrow> exc + (ref \<times> 'img world)" where
  "thumb_podcast env pid w =
     (if pid = PStr ''new'' then Inr (create_podcast_stub env w) else fetch_row w pid)"

text \<open>
  \<open>save_thumb\<close>. The two \<open>except\<close> clauses turn the exception of the \<open>try\<close> body into
  \<open>success\<close> and \<open>message\<close>; the body returned is the dictionary with the keys \<open>success\<close>,
  \<open>message\<close> and \<open>id\<close>, the last read from the instance after the \<open>try\<close> statement.
\<close>

definition save_thumb ::
  "'img env \<Rightarrow> pyval \<Rightarrow> upload option \<Rightarrow> 'img world \<Rightarrow> response \<times> 'img world" where
  "save_thumb env pid thumb w =
     (case thumb_podcast env pid w of
        Inl e \<Rightarrow> (Raise e, w)
      | Inr (podcast, w0) \<Rightarrow>
          (let (raised, w1) = thumb_processing env pid thumb podcast w0;
               (success, msg) =
                 (case raised of
                    None \<Rightarrow> (True, None)
                  | Some e \<Rightarrow>
                      if exc_class e = IOError then (False, Some ''Unsupported image type'')
                      else (False, Some (message e)));
               w2 = w1\<lparr>content_type := Some (best_json_content_type env)\<rparr>
           in (Body [''success'' \<mapsto> JBool success,
                     ''message'' \<mapsto> (case msg of None \<Rightarrow> JNull | Some m \<Rightarrow> JStr m),
                     ''id'' \<mapsto> (case podcast_id (heap w2 podcast) of
                                    None \<Rightarrow> JNull | Some i \<Rightarrow> JInt i)],
               w2)))"

section \<open>An example request\<close>

text \<open>
  Concrete collaborators, a concrete table and a concrete submission, on which the
  closed theorems below run the controller. The slug asked for is free, the cleaner
  leaves the description as it is, an upload decodes when its bytes start with \<open>GIF\<close>,
  every write and the flush succeed.
\<close>

definition demo_env :: "unit env" where
  "demo_env =
     \<lparr>stub = Podcast\<lparr>slug := PStr ''stub-Nov-03-2010'', title := PStr ''(Stub)''\<rparr>,
      get_available_slug = (\<lambda>table wanted p. wanted),
      clean_admin_xhtml = (\<lambda>d. d),
      Image_open = (\<lambda>bytes. if take 3 bytes = ''GIF'' then Inr ()
                              else Inl (Exc IOError ''cannot identify image file'')),
      config_thumb_sizes = [''podcasts'' \<mapsto> [(''s'', 128, 128), (''l'', 600, 600)]],
      thumb_dir = ''podcasts'',
      thumb_path = (\<lambda>p key ext. key @ ''.'' @ (case ext of None \<Rightarrow> ''jpg'' | Some e \<Rightarrow> e)),
      resize_thumb = (\<lambda>img xy. Inr img),
      write_error = (\<lambda>path. None),
      flush_error = None,
      best_json_content_type = ''application/json'',
      splitext = (\<lambda>n. (takeWhile (\<lambda>c. c \<noteq> CHR ''.'') n, dropWhile (\<lambda>c. c \<noteq> CHR ''.'') n))\<rparr>"

definition demo_world :: "unit world" where
  "demo_world =
     \<lparr>heap = (\<lambda>r. Podcast),
      next_ref = 0,
      session_new = [],
      session_persistent = [],
      session_deleted = [],
      rows = [1 \<mapsto> Podcast\<lparr>podcast_id := Some 1, slug := PStr ''news'',
                              title := PStr ''News'', explicit := PBool False\<rparr>],
      next_id = 2,
      flushes = 0,
      files = Map.empty,
      content_type = None\<rparr>"

definition demo_form :: podcast_form where
  "demo_form =
     \<lparr>form_id = PStr ''new'',
      form_slug = PStr ''show'',
      form_title = PStr ''Show'',
      form_subtitle = PNone,
      form_author_name = PStr ''Ann'',
      form_author_email = PStr ''ann@example.org'',
      form_description = PStr ''About the show'',
      form_details = [''copyright'' \<mapsto> PNone, ''category'' \<mapsto> PStr ''Arts'',
                      ''itunes_url'' \<mapsto> PNone, ''feedburner_url'' \<mapsto> PNone,
                      ''explicit'' \<mapsto> PStr ''yes''],
      form_delete = PNone\<rparr>"


section \<open>Properties of the FTP storage form\<close>

text \<open>
  Claim C6, as amended. A call of \<open>save_engine_params\<close> whose \<open>specifics\<close> dictionary holds
  both \<open>path\<close> and \<open>rtmp_server_uri\<close> returns without an exception and leaves \<open>engine._data\<close>
  changed at exactly these two keys, each set to the submitted value, a falsy value
  replaced by \<open>None\<close>. In every call, whatever \<open>specifics\<close> is and whether or not the call
  raises, every other key of \<open>engine._data\<close> keeps its value.
\<close>

theorem save_engine_params_writes:
  "(specifics = Some sp \<and> sp ''path'' = Some p \<and> sp ''rtmp_server_uri'' = Some u \<longrightarrow>
      save_engine_params engine specifics =
        (None, engine\<lparr>data := (data engine)
                 (''path'' \<mapsto> (if truthy p then p else PNone),
                  ''rtmp_server_uri'' \<mapsto> (if truthy u then u else PNone))\<rparr>)) \<and>
   (\<forall>k. k \<noteq> ''path'' \<and> k \<noteq> ''rtmp_server_uri'' \<longrightarrow>
      data (snd (save_engine_params engine specifics)) k = data engine k)"
  by (auto simp: save_engine_params_def py_or_def Let_def split: option.splits)

theorem save_engine_params_writes_witness:
  "save_engine_params \<lparr>data = [''server'' \<mapsto> PStr ''ftp.example.org'']\<rparr>
       (Some [''path'' \<mapsto> PStr ''/media'', ''rtmp_server_uri'' \<mapsto> PStr []])
     = (None, \<lparr>data = [''server'' \<mapsto> PStr ''ftp.example.org'',
                       ''path'' \<mapsto> PStr ''/media'',
                       ''rtmp_server_uri'' \<mapsto> PNone]\<rparr>) \<and>
   data (snd (save_engine_params \<lparr>data = [''server'' \<mapsto> PStr ''ftp.example.org'']\<rparr>
                (Some [''path'' \<mapsto> PStr ''/media'', ''rtmp_server_uri'' \<mapsto> PStr []])))
        ''server''
     = Some (PStr ''ftp.example.org'')"
proof -
  let ?sp = "[''path'' \<mapsto> PStr ''/media'', ''rtmp_server_uri'' \<mapsto> PStr []]"
  let ?e = "\<lparr>data = [''server'' \<mapsto> PStr ''ftp.example.org'']\<rparr>"
  have h: "Some ?sp = Some ?sp \<and> ?sp ''path'' = Some (PStr ''/media'') \<and>
           ?sp ''rtmp_server_uri'' = Some (PStr [])"
    by simp
  have k: "''server'' \<noteq> ''path'' \<and> ''server'' \<noteq> ''rtmp_server_uri''"
    by simp
  note t = save_engine_params_writes [of "Some ?sp" ?sp "PStr ''/media''" "PStr []" ?e]
  have a: "save_engine_params ?e (Some ?sp) =
      (None, ?e\<lparr>data := (data ?e)
         (''path'' \<mapsto> (if truthy (PStr ''/media'') then PStr ''/media'' else PNone),
          ''rtmp_server_uri'' \<mapsto> (if truthy (PStr []) then PStr [] else PNone))\<rparr>)"
    by (rule mp [OF conjunct1 [OF t] h])
  have b: "data (snd (save_engine_params ?e (Some ?sp))) ''server'' = data ?e ''server''"
    by (rule mp [OF spec [OF conjunct2 [OF t]] k])
  from a b show ?thesis by simp
qed

text \<open>
  Claim C6 as it was stated fails: with a \<open>specifics\<close> dictionary that has \<open>path\<close> but no
  \<open>rtmp_server_uri\<close> the call stores \<open>path\<close>, raises \<open>KeyError\<close> and leaves the old value
  under \<open>rtmp_server_uri\<close>.
\<close>

theorem save_engine_params_missing_key:
  "save_engine_params \<lparr>data = [''rtmp_server_uri'' \<mapsto> PStr ''rtmp://old'']\<rparr>
       (Some [''path'' \<mapsto> PStr ''/srv''])
     = (Some (Exc KeyError ''rtmp_server_uri''),
        \<lparr>data = [''rtmp_server_uri'' \<mapsto> PStr ''rtmp://old'', ''path'' \<mapsto> PStr ''/srv'']\<rparr>)"
  by (simp add: save_engine_params_def py_or_def)

text \<open>
  Claim C7. After \<open>save_engine_params(engine, specifics)\<close>, whether it returned or raised,
  \<open>display(value, engine=engine)\<close> on a \<open>value\<close> whose \<open>specifics\<close> dictionary has neither
  \<open>path\<close> nor \<open>rtmp_server_uri\<close> returns and leaves under both keys of
  \<open>value['specifics']\<close> what \<open>engine._data\<close> holds there (\<open>None\<close> for a key it does not
  hold); when \<open>specifics\<close> had both keys these are the values just stored, the submitted
  ones with falsy values as \<open>None\<close>.
\<close>

theorem save_then_display:
  assumes "kwargs ''engine'' = Some (snd (save_engine_params engine specifics))"
    and "form_value ''specifics'' = Some (Dict sp)"
    and "sp ''path'' = None" and "sp ''rtmp_server_uri'' = None"
  shows "\<exists>r value' sp'.
           display StorageForm_display form_value kwargs = Inr (r, value') \<and>
           value' ''specifics'' = Some (Dict sp') \<and>
           sp' ''path'' =
             Some (dict_get (data (snd (save_engine_params engine specifics))) ''path'' PNone) \<and>
           sp' ''rtmp_server_uri'' =
             Some (dict_get (data (snd (save_engine_params engine specifics)))
                     ''rtmp_server_uri'' PNone) \<and>
           (\<forall>s p u. specifics = Some s \<and> s ''path'' = Some p \<and>
                    s ''rtmp_server_uri'' = Some u \<longrightarrow>
              sp' ''path'' = Some (if truthy p then p else PNone) \<and>
              sp' ''rtmp_server_uri'' = Some (if truthy u then u else PNone))"
  using assms
  by (auto simp: display_def setdefault_def dict_get_def save_engine_params_def py_or_def Let_def
           split: option.splits)

theorem save_then_display_witness:
  "display (\<lambda>v k. ()) [''specifics'' \<mapsto> Dict Map.empty]
      [''engine'' \<mapsto> snd (save_engine_params \<lparr>data = Map.empty\<rparr>
          (Some [''path'' \<mapsto> PStr ''/media'', ''rtmp_server_uri'' \<mapsto> PStr []]))]
     = Inr ((), [''specifics'' \<mapsto>
                   Dict [''path'' \<mapsto> PStr ''/media'', ''rtmp_server_uri'' \<mapsto> PNone]])"
proof -
  let ?s = "[''path'' \<mapsto> PStr ''/media'', ''rtmp_server_uri'' \<mapsto> PStr []]"
  let ?e = "snd (save_engine_params \<lparr>data = Map.empty\<rparr> (Some ?s))"
  let ?kw = "[''engine'' \<mapsto> ?e]"
  let ?v = "[''specifics'' \<mapsto> Dict Map.empty]"
  have h1: "?kw ''engine'' = Some ?e" by simp
  have h2: "?v ''specifics'' = Some (Dict Map.empty)" by simp
  have h3: "(Map.empty :: string \<rightharpoonup> pyval) ''path'' = None" by simp
  have h4: "(Map.empty :: string \<rightharpoonup> pyval) ''rtmp_server_uri'' = None" by simp
  note t = save_then_display [where kwargs = ?kw and engine = "\<lparr>data = Map.empty\<rparr>"
      and specifics = "Some ?s" and form_value = ?v and sp = Map.empty
      and StorageForm_display = "\<lambda>v k. ()"]
  from t [OF h1 h2 h3 h4] show ?thesis
    by (simp add: display_def setdefault_def dict_get_def save_engine_params_def py_or_def)
qed

text \<open>
  Claim C10. \<open>display\<close>, called with an engine on a \<open>value\<close> that has a \<open>specifics\<close>
  dictionary, returns, and \<open>value['specifics']\<close> is afterwards: under every key it had,
  the value it had; under \<open>path\<close> and \<open>rtmp_server_uri\<close>, when it did not have them, the
  entry of \<open>engine._data\<close> (or \<open>None\<close>); nothing else. The other entries of \<open>value\<close> are
  untouched.
\<close>

theorem display_keeps_present:
  assumes "kwargs ''engine'' = Some engine" and "form_value ''specifics'' = Some (Dict sp)"
  shows "\<exists>sp'. display StorageForm_display form_value kwargs =
                  Inr (StorageForm_display (form_value(''specifics'' \<mapsto> Dict sp')) kwargs,
                       form_value(''specifics'' \<mapsto> Dict sp')) \<and>
               (\<forall>k. sp' k = (if k \<in> dom sp then sp k
                             else if k = ''path'' \<or> k = ''rtmp_server_uri''
                                  then Some (dict_get (data engine) k PNone)
                                  else None))"
  using assms
  by (auto simp: display_def setdefault_def Let_def split: option.splits)

theorem display_keeps_present_witness:
  "display (\<lambda>v k. ()) [''specifics'' \<mapsto> Dict [''path'' \<mapsto> PNone]]
      [''engine'' \<mapsto>
         \<lparr>data = [''path'' \<mapsto> PStr ''/e'', ''rtmp_server_uri'' \<mapsto> PStr ''rtmp://e'']\<rparr>]
     = Inr ((), [''specifics'' \<mapsto>
                   Dict [''path'' \<mapsto> PNone, ''rtmp_server_uri'' \<mapsto> PStr ''rtmp://e'']])"
proof -
  let ?e = "\<lparr>data = [''path'' \<mapsto> PStr ''/e'', ''rtmp_server_uri'' \<mapsto> PStr ''rtmp://e'']\<rparr>"
  let ?kw = "[''engine'' \<mapsto> ?e]"
  let ?sp = "[''path'' \<mapsto> PNone]"
  let ?v = "[''specifics'' \<mapsto> Dict ?sp]"
  have h1: "?kw ''engine'' = Some ?e" by simp
  have h2: "?v ''specifics'' = Some (Dict ?sp)" by simp
  note t = display_keeps_present [where kwargs = ?kw and engine = ?e and form_value = ?v
      and sp = ?sp and StorageForm_display = "\<lambda>v k. ()"]
  from t [OF h1 h2] show ?thesis
    by (simp add: display_def setdefault_def dict_get_def)
qed


section \<open>Properties of the explicit-content flag\<close>

text \<open>
  Claim C8. Between the stored flags \<open>True\<close>, \<open>False\<close>, \<open>None\<close> and the form choices
  \<open>'yes'\<close>, \<open>'clean'\<close>, \<open>'no'\<close> the mapping of \<open>edit\<close> and the mapping of \<open>save\<close> are inverse
  to each other: a stored flag is shown as one of the three choices and saving that
  choice gives the flag back; a choice is saved as one of the three flags and showing
  that flag gives the choice back.
\<close>

theorem explicit_roundtrip:
  "(flag \<in> {PBool True, PBool False, PNone} \<longrightarrow>
      edit_explicit flag \<in> {PStr ''yes'', PStr ''clean'', PStr ''no''} \<and>
      save_explicit (edit_explicit flag) = flag) \<and>
   (choice \<in> {PStr ''yes'', PStr ''clean'', PStr ''no''} \<longrightarrow>
      save_explicit choice \<in> {PBool True, PBool False, PNone} \<and>
      edit_explicit (save_explicit choice) = choice)"
  by (auto simp: edit_explicit_def save_explicit_def)

theorem explicit_roundtrip_witness:
  "save_explicit (edit_explicit PNone) = PNone \<and>
   edit_explicit (save_explicit (PStr ''clean'')) = PStr ''clean''"
proof -
  have h1: "PNone \<in> {PBool True, PBool False, PNone}" by simp
  have h2: "PStr ''clean'' \<in> {PStr ''yes'', PStr ''clean'', PStr ''no''}" by simp
  note t = explicit_roundtrip [of PNone "PStr ''clean''"]
  have a: "save_explicit (edit_explicit PNone) = PNone"
    by (rule conjunct2 [OF mp [OF conjunct1 [OF t] h1]])
  have b: "edit_explicit (save_explicit (PStr ''clean'')) = PStr ''clean''"
    by (rule conjunct2 [OF mp [OF conjunct2 [OF t] h2]])
  from a b show ?thesis by (rule conjI)
qed

section \<open>Properties of \<open>save\<close>\<close>

lemma fetch_row_Inr:
  assumes "fetch_row w pid = Inr (r, w0)"
  shows "r = next_ref w \<and>
         w0 = (w\<lparr>heap := (heap w)(r := heap w0 r), next_ref := Suc (next_ref w),
                 session_persistent := session_persistent w0\<rparr>) \<and>
         ((pid = PStr ''new'' \<and> heap w0 r = Podcast \<and>
           session_persistent w0 = session_persistent w) \<or>
          (\<exists>i p. pid = PInt i \<and> rows w i = Some p \<and> heap w0 r = p\<lparr>podcast_id := Some i\<rparr> \<and>
                 session_persistent w0 = session_persistent w @ [r]))"
  using assms
  by (auto simp: fetch_row_def new_object_def Let_def split: if_splits pyval.splits option.splits)

lemma save_attributes_ok:
  assumes "form_details f ''copyright'' = Some c" and "form_details f ''category'' = Some g"
    and "form_details f ''itunes_url'' = Some it" and "form_details f ''feedburner_url'' = Some fb"
    and "form_details f ''explicit'' = Some ex"
  shows "save_attributes env f r w =
           (None, w\<lparr>heap := (heap w)(r := (heap w r)
              \<lparr>slug := get_available_slug env (rows w) (form_slug f) (heap w r),
               title := form_title f, subtitle := form_subtitle f,
               author := Some \<lparr>name = form_author_name f, email = form_author_email f\<rparr>,
               description := clean_admin_xhtml env (form_description f),
               copyright := c, category := g, itunes_url := it, feedburner_url := fb,
               explicit := save_explicit ex\<rparr>)\<rparr>)"
  using assms by (simp add: save_attributes_def assign_def assign_item_def)

lemma save_fields_new:
  assumes fs: "fresh_session w" and id: "form_id f = PStr ''new''"
    and del: "\<not> truthy (form_delete f)"
    and d: "form_details f ''copyright'' = Some c" "form_details f ''category'' = Some g"
      "form_details f ''itunes_url'' = Some it" "form_details f ''feedburner_url'' = Some fb"
      "form_details f ''explicit'' = Some ex"
    and fl: "flush_error env = None"
  shows "\<exists>w'. save env f w = (Redirect ''edit'' (Some (next_id w)), w') \<and>
           rows w' = (rows w)(next_id w \<mapsto>
             \<lparr>podcast_id = Some (next_id w),
              slug = get_available_slug env (rows w) (form_slug f) Podcast,
              title = form_title f, subtitle = form_subtitle f,
              author = Some \<lparr>name = form_author_name f, email = form_author_email f\<rparr>,
              description = clean_admin_xhtml env (form_description f),
              copyright = c, category = g, itunes_url = it, feedburner_url = fb,
              explicit = save_explicit ex\<rparr>)"
  using fs id del fl
  by (simp add: save_def fetch_row_def new_object_def save_attributes_ok [OF d]
        DBSession_add_def DBSession_flush_def fresh_session_def Let_def Podcast_def)

lemma save_fields_row:
  assumes fs: "fresh_session w" and id: "form_id f = PInt i" and row: "rows w i = Some p"
    and del: "\<not> truthy (form_delete f)"
    and d: "form_details f ''copyright'' = Some c" "form_details f ''category'' = Some g"
      "form_details f ''itunes_url'' = Some it" "form_details f ''feedburner_url'' = Some fb"
      "form_details f ''explicit'' = Some ex"
    and fl: "flush_error env = None"
  shows "\<exists>w'. save env f w = (Redirect ''edit'' (Some i), w') \<and>
           rows w' = (rows w)(i \<mapsto>
             \<lparr>podcast_id = Some i,
              slug = get_available_slug env (rows w) (form_slug f) (p\<lparr>podcast_id := Some i\<rparr>),
              title = form_title f, subtitle = form_subtitle f,
              author = Some \<lparr>name = form_author_name f, email = form_author_email f\<rparr>,
              description = clean_admin_xhtml env (form_description f),
              copyright = c, category = g, itunes_url = it, feedburner_url = fb,
              explicit = save_explicit ex\<rparr>)"
  using fs id row del fl
  by (cases p) (simp add: save_def fetch_row_def new_object_def save_attributes_ok [OF d]
        DBSession_add_def DBSession_flush_def fresh_session_def Let_def)

text \<open>
  Claim C4, as amended. A \<open>save\<close> call without \<open>delete\<close>, on a request whose session is
  fresh, whose podcast \<open>fetch_row\<close> delivers, whose \<open>details\<close> hold the five keys and whose
  flush the database accepts, redirects to \<open>edit\<close> with the id of the podcast, and the row
  of that id then holds: the submitted title, subtitle, author name and email, copyright,
  category, iTunes URL and Feedburner URL; as slug what \<open>get_available_slug\<close> makes of the
  submitted slug; as description what \<open>clean_admin_xhtml\<close> makes of the submitted
  description; as explicit flag \<open>True\<close>, \<open>False\<close> or \<open>None\<close> for the submitted choice
  \<open>'yes'\<close>, \<open>'clean'\<close> or anything else. The other rows are as before.
\<close>

theorem save_persists:
  assumes fs: "fresh_session w"
    and fetch: "fetch_row w (form_id f) = Inr (podcast, w0)"
    and del: "\<not> truthy (form_delete f)"
    and d: "form_details f ''copyright'' = Some c" "form_details f ''category'' = Some g"
      "form_details f ''itunes_url'' = Some it" "form_details f ''feedburner_url'' = Some fb"
      "form_details f ''explicit'' = Some ex"
    and fl: "flush_error env = None"
  shows "\<exists>i w' p. save env f w = (Redirect ''edit'' (Some i), w') \<and>
           rows w' i = Some p \<and>
           podcast_id p = Some i \<and>
           slug p = get_available_slug env (rows w) (form_slug f) (heap w0 podcast) \<and>
           title p = form_title f \<and>
           subtitle p = form_subtitle f \<and>
           author p = Some \<lparr>name = form_author_name f, email = form_author_email f\<rparr> \<and>
           description p = clean_admin_xhtml env (form_description f) \<and>
           copyright p = c \<and>
           category p = g \<and>
           itunes_url p = it \<and>
           feedburner_url p = fb \<and>
           explicit p = save_explicit ex \<and>
           (\<forall>j. j \<noteq> i \<longrightarrow> rows w' j = rows w j)"
proof -
  from fetch_row_Inr [OF fetch]
  consider (new) "form_id f = PStr ''new''" "heap w0 podcast = Podcast"
    | (row) i p where "form_id f = PInt i" "rows w i = Some p"
        "heap w0 podcast = p\<lparr>podcast_id := Some i\<rparr>"
    by auto
  then show ?thesis
  proof cases
    case new
    from save_fields_new [OF fs new(1) del d fl]
    obtain w' where s: "save env f w = (Redirect ''edit'' (Some (next_id w)), w')"
      and r: "rows w' = (rows w)(next_id w \<mapsto>
             \<lparr>podcast_id = Some (next_id w),
              slug = get_available_slug env (rows w) (form_slug f) Podcast,
              title = form_title f, subtitle = form_subtitle f,
              author = Some \<lparr>name = form_author_name f, email = form_author_email f\<rparr>,
              description = clean_admin_xhtml env (form_description f),
              copyright = c, category = g, itunes_url = it, feedburner_url = fb,
              explicit = save_explicit ex\<rparr>)"
      by (elim exE conjE)
    show ?thesis
      apply (rule exI [where x = "next_id w"])
      apply (rule exI [where x = w'])
      apply (rule exI [where x = "the (rows w' (next_id w))"])
      apply (simp add: s r new(2))
      done
  next
    case (row i p)
    from save_fields_row [OF fs row(1) row(2) del d fl]
    obtain w' where s: "save env f w = (Redirect ''edit'' (Some i), w')"
      and r: "rows w' = (rows w)(i \<mapsto>
             \<lparr>podcast_id = Some i,
              slug = get_available_slug env (rows w) (form_slug f) (p\<lparr>podcast_id := Some i\<rparr>),
              title = form_title f, subtitle = form_subtitle f,
              author = Some \<lparr>name = form_author_name f, email = form_author_email f\<rparr>,
              description = clean_admin_xhtml env (form_description f),
              copyright = c, category = g, itunes_url = it, feedburner_url = fb,
              explicit = save_explicit ex\<rparr>)"
      by (elim exE conjE)
    show ?thesis
      apply (rule exI [where x = i])
      apply (rule exI [where x = w'])
      apply (rule exI [where x = "the (rows w' i)"])
      apply (simp add: s r row(3))
      done
  qed
qed

lemma demo_fetch_new:
  "fetch_row demo_world (PStr ''new'') =
     Inr (0, demo_world\<lparr>heap := (heap demo_world)(0 := Podcast), next_ref := Suc 0\<rparr>)"
  by (simp add: fetch_row_def new_object_def demo_world_def)

theorem save_persists_witness:
  "\<exists>w'. save demo_env demo_form demo_world = (Redirect ''edit'' (Some 2), w') \<and>
         map_option title (rows w' 2) = Some (PStr ''Show'') \<and>
         map_option slug (rows w' 2) = Some (PStr ''show'') \<and>
         map_option explicit (rows w' 2) = Some (PBool True) \<and>
         rows w' 1 = rows demo_world 1"
proof -
  have fs: "fresh_session demo_world"
    by (simp add: fresh_session_def demo_world_def)
  have fetch: "fetch_row demo_world (form_id demo_form) =
      Inr (0, demo_world\<lparr>heap := (heap demo_world)(0 := Podcast), next_ref := Suc 0\<rparr>)"
    using demo_fetch_new by (simp add: demo_form_def)
  have del: "\<not> truthy (form_delete demo_form)" by (simp add: demo_form_def)
  have d: "form_details demo_form ''copyright'' = Some PNone"
    "form_details demo_form ''category'' = Some (PStr ''Arts'')"
    "form_details demo_form ''itunes_url'' = Some PNone"
    "form_details demo_form ''feedburner_url'' = Some PNone"
    "form_details demo_form ''explicit'' = Some (PStr ''yes'')"
    by (simp_all add: demo_form_def)
  have fl: "flush_error demo_env = None" by (simp add: demo_env_def)
  from save_persists [OF fs fetch del d fl]
  obtain i w' p where s: "save demo_env demo_form demo_world = (Redirect ''edit'' (Some i), w')"
    and r: "rows w' i = Some p" and t: "title p = form_title demo_form"
    and sl: "slug p = get_available_slug demo_env (rows demo_world) (form_slug demo_form)
                        (heap (demo_world\<lparr>heap := (heap demo_world)(0 := Podcast),
                                          next_ref := Suc 0\<rparr>) 0)"
    and e: "explicit p = save_explicit (PStr ''yes'')"
    and o: "\<forall>j. j \<noteq> i \<longrightarrow> rows w' j = rows demo_world j"
    by (elim exE conjE)
  have i: "i = 2"
    using s by (simp add: save_def fetch_row_def new_object_def demo_form_def demo_env_def
        demo_world_def
        save_attributes_def assign_def assign_item_def DBSession_add_def DBSession_flush_def
        Let_def Podcast_def)
  from o i have "rows w' 1 = rows demo_world 1" by simp
  with s r t sl e i show ?thesis
    by (simp add: demo_form_def demo_env_def save_explicit_def)
qed

text \<open>
  Claim C4 as it was stated fails: the stored explicit flag is not the submitted form
  value. The submission with the choice \<open>'yes'\<close> stores the flag \<open>True\<close>.
\<close>

theorem save_explicit_not_submitted:
  "map_option explicit (rows (snd (save demo_env demo_form demo_world)) 2) = Some (PBool True) \<and>
   form_details demo_form ''explicit'' = Some (PStr ''yes'')"
  by (simp add: save_def fetch_row_def new_object_def demo_form_def demo_env_def
        demo_world_def
        save_attributes_def assign_def assign_item_def DBSession_add_def DBSession_flush_def
        Let_def Podcast_def save_explicit_def)



section \<open>Properties of \<open>save_thumb\<close>\<close>










lemma save_thumb_body:
  assumes "thumb_podcast env pid w = Inr (podcast, w0)"
  shows "save_thumb env pid thumb w =
           (Body [''success'' \<mapsto> JBool (fst (thumb_processing env pid thumb podcast w0) = None),
                  ''message'' \<mapsto>
                     (case fst (thumb_processing env pid thumb podcast w0) of
                        None \<Rightarrow> JNull
                      | Some e \<Rightarrow> JStr (if exc_class e = IOError then ''Unsupported image type''
                                        else message e)),
                  ''id'' \<mapsto>
                     (case podcast_id (heap (snd (thumb_processing env pid thumb podcast w0))
                                         podcast) of
                        None \<Rightarrow> JNull | Some i \<Rightarrow> JInt i)],
            (snd (thumb_processing env pid thumb podcast w0))
              \<lparr>content_type := Some (best_json_content_type env)\<rparr>)"
proof (cases "thumb_processing env pid thumb podcast w0")
  case (Pair x w1)
  show ?thesis
  proof (cases x)
    case None
    with Pair assms show ?thesis by (simp add: save_thumb_def)
  next
    case (Some e)
    with Pair assms show ?thesis by (simp add: save_thumb_def)
  qed
qed

text \<open>
  Claim C1. When the podcast is at hand and the \<open>try\<close> body raises an \<open>IOError\<close>,
  \<open>save_thumb\<close> returns a body whose \<open>success\<close> is \<open>false\<close> and whose \<open>message\<close> is
  \<open>'Unsupported image type'\<close>.
\<close>

theorem save_thumb_ioerror:
  assumes "thumb_podcast env pid w = Inr (podcast, w0)"
    and "fst (thumb_processing env pid thumb podcast w0) = Some e"
    and "exc_class e = IOError"
  shows "\<exists>body w'. save_thumb env pid thumb w = (Body body, w') \<and>
           body ''success'' = Some (JBool False) \<and>
           body ''message'' = Some (JStr ''Unsupported image type'')"
  using assms(2,3) by (simp add: save_thumb_body [OF assms(1)])

theorem save_thumb_ioerror_witness:
  "\<exists>body w'. save_thumb demo_env (PInt 1)
                (Some \<lparr>filename = ''notes.txt'', file_data = ''plain text''\<rparr>) demo_world
              = (Body body, w') \<and>
             body ''success'' = Some (JBool False) \<and>
             body ''message'' = Some (JStr ''Unsupported image type'')"
proof -
  let ?t = "Some \<lparr>filename = ''notes.txt'', file_data = ''plain text''\<rparr>"
  let ?p = "Podcast\<lparr>podcast_id := Some 1, slug := PStr ''news'',
                     title := PStr ''News'', explicit := PBool False\<rparr>"
  let ?w0 = "demo_world\<lparr>heap := (heap demo_world)(0 := ?p\<lparr>podcast_id := Some 1\<rparr>),
                        next_ref := Suc 0, session_persistent := [0]\<rparr>"
  let ?e = "Exc IOError ''cannot identify image file''"
  have h1: "thumb_podcast demo_env (PInt 1) demo_world = Inr (0, ?w0)"
    by (simp add: thumb_podcast_def fetch_row_def new_object_def demo_world_def)
  have h2: "fst (thumb_processing demo_env (PInt 1) ?t 0 ?w0) = Some ?e"
    by (simp add: thumb_processing_def demo_env_def)
  have h3: "exc_class ?e = IOError" by simp
  from save_thumb_ioerror [OF h1 h2 h3] show ?thesis .
qed

text \<open>
  Claim C3. When the podcast is at hand and the \<open>try\<close> body raises an exception that is
  no \<open>IOError\<close>, \<open>save_thumb\<close> returns a body whose \<open>success\<close> is \<open>false\<close> and whose
  \<open>message\<close> is the \<open>message\<close> of that exception.
\<close>

theorem save_thumb_other_exception:
  assumes "thumb_podcast env pid w = Inr (podcast, w0)"
    and "fst (thumb_processing env pid thumb podcast w0) = Some e"
    and "exc_class e \<noteq> IOError"
  shows "\<exists>body w'. save_thumb env pid thumb w = (Body body, w') \<and>
           body ''success'' = Some (JBool False) \<and>
           body ''message'' = Some (JStr (message e))"
  using assms(2,3) by (simp add: save_thumb_body [OF assms(1)])

theorem save_thumb_other_exception_witness:
  "\<exists>body w'. save_thumb (demo_env\<lparr>resize_thumb :=
                  \<lambda>img xy. Inl (Exc (OtherError ''ValueError'') ''bad thumbnail size'')\<rparr>)
                (PInt 1) (Some \<lparr>filename = ''logo.gif'', file_data = ''GIF89a''\<rparr>) demo_world
              = (Body body, w') \<and>
             body ''success'' = Some (JBool False) \<and>
             body ''message'' = Some (JStr ''bad thumbnail size'')"
proof -
  let ?env = "demo_env\<lparr>resize_thumb :=
                \<lambda>img xy. Inl (Exc (OtherError ''ValueError'') ''bad thumbnail size'')\<rparr>"
  let ?t = "Some \<lparr>filename = ''logo.gif'', file_data = ''GIF89a''\<rparr>"
  let ?p = "Podcast\<lparr>podcast_id := Some 1, slug := PStr ''news'',
                     title := PStr ''News'', explicit := PBool False\<rparr>"
  let ?w0 = "demo_world\<lparr>heap := (heap demo_world)(0 := ?p\<lparr>podcast_id := Some 1\<rparr>),
                        next_ref := Suc 0, session_persistent := [0]\<rparr>"
  let ?e = "Exc (OtherError ''ValueError'') ''bad thumbnail size''"
  have h1: "thumb_podcast ?env (PInt 1) demo_world = Inr (0, ?w0)"
    by (simp add: thumb_podcast_def fetch_row_def new_object_def demo_world_def)
  have h2: "fst (thumb_processing ?env (PInt 1) ?t 0 ?w0) = Some ?e"
    by (simp add: thumb_processing_def create_thumbs_def demo_env_def)
  have h3: "exc_class ?e \<noteq> IOError" by simp
  from save_thumb_other_exception [OF h1 h2 h3] show ?thesis by simp
qed




text \<open>
  Claim C9. For the id \<open>"new"\<close>, when \<open>Image.open\<close> raises on the upload and the stub has
  no primary key of its own, \<open>save_thumb\<close> returns a body whose \<open>success\<close> is \<open>false\<close> and
  whose \<open>id\<close> is \<open>null\<close>, and the session and the table are as before: nothing was added,
  no flush has happened, no row was written.
\<close>

theorem save_thumb_new_undecodable:
  assumes "pid = PStr ''new''" and "thumb = Some t"
    and "Image_open env (file_data t) = Inl e"
    and "podcast_id (stub env) = None"
  shows "\<exists>body w'. save_thumb env pid thumb w = (Body body, w') \<and>
           body ''success'' = Some (JBool False) \<and>
           body ''id'' = Some JNull \<and>
           session_new w' = session_new w \<and>
           session_persistent w' = session_persistent w \<and>
           session_deleted w' = session_deleted w \<and>
           flushes w' = flushes w \<and>
           rows w' = rows w \<and>
           next_id w' = next_id w"
  using assms
  by (simp add: save_thumb_def thumb_podcast_def create_podcast_stub_def new_object_def
        thumb_processing_def)

theorem save_thumb_new_undecodable_witness:
  "\<exists>body w'. save_thumb demo_env (PStr ''new'')
                (Some \<lparr>filename = ''notes.txt'', file_data = ''plain text''\<rparr>) demo_world
              = (Body body, w') \<and>
             body ''id'' = Some JNull \<and> rows w' = rows demo_world \<and> flushes w' = 0"
proof -
  let ?t = "\<lparr>filename = ''notes.txt'', file_data = ''plain text''\<rparr>"
  have h1: "PStr ''new'' = PStr ''new''" by simp
  have h2: "Some ?t = Some ?t" by simp
  have h3: "Image_open demo_env (file_data ?t) = Inl (Exc IOError ''cannot identify image file'')"
    by (simp add: demo_env_def)
  have h4: "podcast_id (stub demo_env) = None" by (simp add: demo_env_def Podcast_def)
  from save_thumb_new_undecodable [OF h1 h2 h3 h4, of demo_world]
  obtain body w' where s: "save_thumb demo_env (PStr ''new'') (Some ?t) demo_world = (Body body, w')"
    and i: "body ''id'' = Some JNull" and r: "rows w' = rows demo_world"
    and f: "flushes w' = flushes demo_world"
    by (elim exE conjE)
  from f have "flushes w' = 0" by (simp add: demo_world_def)
  with s i r show ?thesis by (simp add: exI [where x = body] exI [where x = w'])
qed

end
